theory Spec2Isabelle
  imports Main
begin

section \<open>Console output and process exit\<close>

text \<open>
  The script \<^verbatim>\<open>prep_for_release.py\<close> writes to two streams and may leave through
  \<^verbatim>\<open>sys.exit(1)\<close> at any call of \<^verbatim>\<open>error\<close>. A computation is modelled by the
  texts it wrote, in order, together with either the exit status it stopped the process
  with (\<open>Inl\<close>) or the value it returned (\<open>Inr\<close>).
\<close>

datatype event = Stdout string | Stderr string

type_synonym 'a run = "event list \<times> (nat + 'a)"

definition ret :: "'a \<Rightarrow> 'a run" where
  "ret x = ([], Inr x)"

definition then_run :: "'a run \<Rightarrow> ('a \<Rightarrow> 'b run) \<Rightarrow> 'b run" where
  "then_run r f =
     (case r of
        (out, Inl code) \<Rightarrow> (out, Inl code)
      | (out, Inr x) \<Rightarrow> (case f x of (out', y) \<Rightarrow> (out @ out', y)))"

text \<open>The \<^verbatim>\<open>print\<close> statement of Python 2: the text and a newline on standard output.\<close>

definition print :: "string \<Rightarrow> unit run" where
  "print s = ([Stdout (s @ ''\<newline>'')], Inr ())"

text \<open>\<^verbatim>\<open>error(msg)\<close>: one line on the error stream, then exit status 1.\<close>

definition error :: "string \<Rightarrow> 'a run" where
  "error msg = ([Stderr (''ERROR: '' @ msg @ ''\<newline>'')], Inl 1)"

definition warning :: "string \<Rightarrow> unit run" where
  "warning msg = ([Stderr (''WARNING: '' @ msg @ ''\<newline>'')], Inr ())"

section \<open>Regular expressions\<close>

text \<open>
  The patterns of the script, as abstract syntax, with a backtracking matcher for the
  fragment of Python 2's \<^verbatim>\<open>re\<close> module they use (byte strings, no \<^verbatim>\<open>DOTALL\<close>, no
  \<^verbatim>\<open>LOCALE\<close> or \<^verbatim>\<open>UNICODE\<close>). An \<open>item\<close> is a member of a bracketed character class;
  \<open>Ws\<close> is \<^verbatim>\<open>\s\<close> and \<open>Dg\<close> is \<^verbatim>\<open>\d\<close>.
\<close>

datatype item = Chr char | Rng char char | Ws | Dg

fun in_item :: "item \<Rightarrow> char \<Rightarrow> bool" where
  "in_item (Chr a) c = (c = a)"
| "in_item (Rng a b) c = ((of_char a :: nat) \<le> of_char c \<and> (of_char c :: nat) \<le> of_char b)"
| "in_item Ws c = (c \<in> set [CHR '' '', CHR 0x09, CHR 0x0A, CHR 0x0D, CHR 0x0C, CHR 0x0B])"
| "in_item Dg c = ((of_char CHR ''0'' :: nat) \<le> of_char c \<and> (of_char c :: nat) \<le> of_char CHR ''9'')"

datatype re =
    Eps
  | Lit char
  | Set "item list"
  | Dot
  | Seq re re
  | Alt re re
  | Star re
  | NotAhead re
  | Grp re
  | Bol
  | Eol

text \<open>
  A position of the matcher: the character before the cursor (\<open>None\<close> at the start of
  the subject), the text after the cursor, and the text captured by the group so far.
  \<open>rm m r st\<close> lists the positions at which a match of \<open>r\<close> begun at \<open>st\<close> can
  end, in the order in which backtracking tries them: the left alternative first, a
  repetition as long as possible first. \<open>m\<close> is the \<^verbatim>\<open>re.M\<close> flag.
\<close>

type_synonym pos = "char option \<times> string \<times> string option"

fun rm :: "bool \<Rightarrow> re \<Rightarrow> pos \<Rightarrow> pos list" where
  "rm m Eps st = [st]"
| "rm m (Lit c) (p, s, g) =
     (case s of [] \<Rightarrow> [] | x # xs \<Rightarrow> if x = c then [(Some x, xs, g)] else [])"
| "rm m (Set cs) (p, s, g) =
     (case s of [] \<Rightarrow> []
      | x # xs \<Rightarrow> if list_ex (\<lambda>i. in_item i x) cs then [(Some x, xs, g)] else [])"
| "rm m Dot (p, s, g) =
     (case s of [] \<Rightarrow> [] | x # xs \<Rightarrow> if x \<noteq> CHR 0x0A then [(Some x, xs, g)] else [])"
| "rm m (Seq a b) st = concat (map (rm m b) (rm m a st))"
| "rm m (Alt a b) st = rm m a st @ rm m b st"
| "rm m (Star a) st =
     concat (map (rm m (Star a))
               (filter (\<lambda>st'. length (fst (snd st')) < length (fst (snd st))) (rm m a st)))
     @ [st]"
| "rm m (NotAhead a) st = (if rm m a st = [] then [st] else [])"
| "rm m (Grp a) (p, s, g) =
     map (\<lambda>(p', s', g'). (p', s', Some (take (length s - length s') s))) (rm m a (p, s, g))"
| "rm m Bol (p, s, g) = (if p = None \<or> (m \<and> p = Some (CHR 0x0A)) then [(p, s, g)] else [])"
| "rm m Eol (p, s, g) =
     (if s = [] \<or> (m \<and> hd s = CHR 0x0A) \<or> (\<not> m \<and> s = [CHR 0x0A]) then [(p, s, g)] else [])"

definition Plus :: "re \<Rightarrow> re" where
  "Plus r = Seq r (Star r)"

definition seqs :: "re list \<Rightarrow> re" where
  "seqs rs = foldr Seq rs Eps"

definition lits :: "string \<Rightarrow> re" where
  "lits s = seqs (map Lit s)"

text \<open>
  A compiled pattern: the \<^verbatim>\<open>re.M\<close> flag and the syntax. A match object is modelled by
  what the script reads from it, the text of the capturing group (\<open>None\<close> for a pattern
  without one); \<open>None\<close> as the result of \<open>re_match\<close> or \<open>re_search\<close> is Python's
  \<^verbatim>\<open>None\<close>, no match.
\<close>

type_synonym pattern = "bool \<times> re"

definition match_at :: "pattern \<Rightarrow> char option \<Rightarrow> string \<Rightarrow> string option option" where
  "match_at pat p s =
     (case rm (fst pat) (snd pat) (p, s, None) of
        [] \<Rightarrow> None
      | (p', s', g) # _ \<Rightarrow> Some g)"

definition re_match :: "pattern \<Rightarrow> string \<Rightarrow> string option option" where
  "re_match pat s = match_at pat None s"

fun search_from :: "pattern \<Rightarrow> char option \<Rightarrow> string \<Rightarrow> string option option" where
  "search_from pat p [] = match_at pat p []"
| "search_from pat p (x # xs) =
     (case match_at pat p (x # xs) of
        Some mo \<Rightarrow> Some mo
      | None \<Rightarrow> search_from pat (Some x) xs)"

definition re_search :: "pattern \<Rightarrow> string \<Rightarrow> string option option" where
  "re_search pat s = search_from pat None s"

section \<open>\<^verbatim>\<open>distutils.version.LooseVersion\<close>\<close>

text \<open>
  A component of a parsed version is an integer or a string. Python 2 orders every
  integer before every string, strings by their bytes, and lists lexicographically with
  a proper prefix before the longer list; \<^verbatim>\<open>cmp\<close> returns \<open>-1\<close>, \<open>0\<close> or \<open>1\<close>.
\<close>

datatype comp = Num nat | Str string

definition is_digit :: "char \<Rightarrow> bool" where
  "is_digit c = in_item Dg c"

definition is_lower :: "char \<Rightarrow> bool" where
  "is_lower c = in_item (Rng CHR ''a'' CHR ''z'') c"

text \<open>
  The class of a character under \<^verbatim>\<open>component_re = (\d+ | [a-z]+ | \.)\<close>: a digit, a
  lower-case letter, the dot, or a character the pattern does not match.
\<close>

definition kind :: "char \<Rightarrow> nat" where
  "kind c = (if is_digit c then 0 else if is_lower c then 1 else if c = CHR ''.'' then 2 else 3)"

text \<open>
  \<^verbatim>\<open>filter(lambda x: x and x != '.', component_re.split(vstring))\<close>: the maximal runs
  of digits, of lower-case letters and of other characters, the dots dropped.
\<close>

fun pieces :: "string \<Rightarrow> string list" where
  "pieces [] = []"
| "pieces (c # cs) =
     (if c = CHR ''.'' then pieces cs
      else (case cs of
              [] \<Rightarrow> [[c]]
            | d # ds \<Rightarrow>
                if kind d = kind c
                then (case pieces cs of [] \<Rightarrow> [[c]] | r # rs \<Rightarrow> (c # r) # rs)
                else [c] # pieces cs))"

definition int_of_digits :: "string \<Rightarrow> nat" where
  "int_of_digits s = foldl (\<lambda>n c. 10 * n + (of_char c - 48)) 0 s"

text \<open>\<^verbatim>\<open>int(x)\<close> succeeds on the runs of digits and raises \<^verbatim>\<open>ValueError\<close> on the others.\<close>

definition to_comp :: "string \<Rightarrow> comp" where
  "to_comp x = (if list_all is_digit x then Num (int_of_digits x) else Str x)"

record loose_version =
  vstring :: string
  version :: "comp list"

definition LooseVersion :: "string \<Rightarrow> loose_version" where
  "LooseVersion s = \<lparr> vstring = s, version = map to_comp (pieces s) \<rparr>"

fun cmp_nat :: "nat \<Rightarrow> nat \<Rightarrow> int" where
  "cmp_nat a b = (if a < b then - 1 else if b < a then 1 else 0)"

fun cmp_str :: "string \<Rightarrow> string \<Rightarrow> int" where
  "cmp_str [] [] = 0"
| "cmp_str [] (y # ys) = - 1"
| "cmp_str (x # xs) [] = 1"
| "cmp_str (x # xs) (y # ys) =
     (if (of_char x :: nat) < of_char y then - 1
      else if (of_char y :: nat) < of_char x then 1
      else cmp_str xs ys)"

fun cmp_comp :: "comp \<Rightarrow> comp \<Rightarrow> int" where
  "cmp_comp (Num a) (Num b) = cmp_nat a b"
| "cmp_comp (Num a) (Str t) = - 1"
| "cmp_comp (Str s) (Num b) = 1"
| "cmp_comp (Str s) (Str t) = cmp_str s t"

fun cmp_list :: "comp list \<Rightarrow> comp list \<Rightarrow> int" where
  "cmp_list [] [] = 0"
| "cmp_list [] (y # ys) = - 1"
| "cmp_list (x # xs) [] = 1"
| "cmp_list (x # xs) (y # ys) =
     (if cmp_comp x y \<noteq> 0 then cmp_comp x y else cmp_list xs ys)"

text \<open>\<^verbatim>\<open>LooseVersion.__cmp__\<close>, and the comparisons Python 2 derives from it.\<close>

definition lv_cmp :: "loose_version \<Rightarrow> loose_version \<Rightarrow> int" where
  "lv_cmp a b = cmp_list (version a) (version b)"

definition lv_eq :: "loose_version \<Rightarrow> loose_version \<Rightarrow> bool" where
  "lv_eq a b = (lv_cmp a b = 0)"

definition lv_gt :: "loose_version \<Rightarrow> loose_version \<Rightarrow> bool" where
  "lv_gt a b = (0 < lv_cmp a b)"

text \<open>\<^verbatim>\<open>max(a, b)\<close>: the first argument, replaced by the second when that is greater.\<close>

definition py_max :: "loose_version \<Rightarrow> loose_version \<Rightarrow> loose_version" where
  "py_max a b = (if lv_gt b a then b else a)"

section \<open>The checks of the script\<close>

text \<open>
  \<^verbatim>\<open>os.path.join\<close> of two POSIX paths. The script only joins onto paths that are
  absolute and normalised, for which \<^verbatim>\<open>os.path.abspath\<close> returns the path unchanged,
  and the names \<^verbatim>\<open>os.listdir\<close> returns contain no separator, so that
  \<^verbatim>\<open>os.path.basename\<close> of a joined path is the name joined.
\<close>

definition path_join :: "string \<Rightarrow> string \<Rightarrow> string" where
  "path_join a b =
     (if b \<noteq> [] \<and> hd b = CHR ''/'' then b
      else if a = [] \<or> last a = CHR ''/'' then a @ b
      else a @ ''/'' @ b)"

subsection \<open>\<^verbatim>\<open>get_easybuild_version\<close>\<close>

text \<open>
  \<^verbatim>\<open>^VERSION\s*=\s*[a-zA-Z(\"']*\s*(?P<version>[0-9.]+).*$\<close> with \<^verbatim>\<open>re.M\<close>.
\<close>

definition version_re :: pattern where
  "version_re =
     (True,
      seqs [Bol, lits ''VERSION'', Star (Set [Ws]), Lit CHR ''='', Star (Set [Ws]),
            Star (Set [Rng CHR ''a'' CHR ''z'', Rng CHR ''A'' CHR ''Z'', Chr CHR ''('',
                       Chr CHR 0x22, Chr CHR 0x27]),
            Star (Set [Ws]),
            Grp (Plus (Set [Rng CHR ''0'' CHR ''9'', Chr CHR ''.''])),
            Star Dot, Eol])"

definition version_re_pattern :: string where
  "version_re_pattern =
     ''^VERSION'' @ [CHR 0x5C] @ ''s*='' @ [CHR 0x5C] @ ''s*[a-zA-Z('' @ [CHR 0x22, CHR 0x27]
     @ '']*'' @ [CHR 0x5C] @ ''s*(?P<version>[0-9.]+).*$''"

text \<open>
  The result of reading a file is the message of the \<^verbatim>\<open>IOError\<close> (\<open>Inl\<close>) or the
  text of the file (\<open>Inr\<close>).
\<close>

definition get_easybuild_version :: "string \<Rightarrow> string + string \<Rightarrow> loose_version run" where
  "get_easybuild_version home rd =
     (let initfile = path_join (path_join home ''easybuild'') ''__init__.py'' in
      case rd of
        Inl err \<Rightarrow>
          error (''Failed to read EasyBuild's init file at '' @ initfile @ '': '' @ err)
      | Inr inittxt \<Rightarrow>
          (case re_search version_re inittxt of
             Some (Some v) \<Rightarrow> ret (LooseVersion v)
           | _ \<Rightarrow>
               error (''Failed to determine EasyBuild version from '' @ initfile
                      @ '' (regexp pattern used: '' @ version_re_pattern @ '').'')))"

subsection \<open>\<^verbatim>\<open>get_last_git_version_tag\<close>\<close>

text \<open>\<^verbatim>\<open>s.split('\n')\<close>: never empty, one more element than there are newlines.\<close>

fun split_nl :: "string \<Rightarrow> string list" where
  "split_nl [] = [[]]"
| "split_nl (c # cs) =
     (if c = CHR 0x0A then [] # split_nl cs
      else (case split_nl cs of [] \<Rightarrow> [[c]] | r # rs \<Rightarrow> (c # r) # rs))"

text \<open>\<^verbatim>\<open>^v([0-9]+\.[0-9]+)$\<close>, without flags.\<close>

definition vertag_re :: pattern where
  "vertag_re =
     (False,
      seqs [Bol, Lit CHR ''v'',
            Grp (seqs [Plus (Set [Rng CHR ''0'' CHR ''9'']), Lit CHR ''.'',
                       Plus (Set [Rng CHR ''0'' CHR ''9''])]),
            Eol])"

text \<open>
  The list comprehension: the versions of the tags that match, in the order of the
  listing.
\<close>

fun git_version_tags_of :: "string list \<Rightarrow> loose_version list" where
  "git_version_tags_of [] = []"
| "git_version_tags_of (t # ts) =
     (case re_match vertag_re t of
        Some (Some g) \<Rightarrow> LooseVersion g # git_version_tags_of ts
      | _ \<Rightarrow> git_version_tags_of ts)"

text \<open>
  The result of \<^verbatim>\<open>git tag -l\<close> is the message of the \<^verbatim>\<open>GitCommandError\<close> or the
  output of the command.
\<close>

definition get_last_git_version_tag :: "string + string \<Rightarrow> loose_version run" where
  "get_last_git_version_tag res =
     (case res of
        Inl err \<Rightarrow> error (''Failed to determine last EasyBuild git tag: '' @ err)
      | Inr out \<Rightarrow>
          (let git_tags = split_nl out;
               git_version_tags = git_version_tags_of git_tags
           in if length git_version_tags \<ge> 1 then ret (last git_version_tags)
              else error ''No git version tags set?''))"

subsection \<open>\<^verbatim>\<open>check_version\<close>\<close>

definition check_version :: "loose_version \<Rightarrow> loose_version \<Rightarrow> bool run" where
  "check_version easybuild_version last_version_git_tag =
     then_run (print (''Current EasyBuild version: '' @ vstring easybuild_version)) (\<lambda>_.
     then_run (print (''Last git version tag: '' @ vstring last_version_git_tag @ '' '')) (\<lambda>_.
     if \<not> lv_eq easybuild_version last_version_git_tag
     then then_run (warning (''Current EasyBuild version '' @ vstring easybuild_version
                             @ '' does not match last git version tag ''
                             @ vstring last_version_git_tag @ ''.'')) (\<lambda>_. ret False)
     else then_run (print ''Version checks passed.'') (\<lambda>_. ret True)))"

subsection \<open>\<^verbatim>\<open>check_release_notes\<close>\<close>

text \<open>
  The version is put into the text of the pattern by \<^verbatim>\<open>%s\<close>, which writes its
  \<^verbatim>\<open>vstring\<close>, and the text is then compiled: every dot of the version is the
  wildcard of the pattern, every other character stands for itself. (The versions of this
  script are made from the groups \<^verbatim>\<open>[0-9.]+\<close> and \<^verbatim>\<open>[0-9]+\.[0-9]+\<close>, so that no
  other special character occurs in them.)
\<close>

definition version_in_pattern :: "string \<Rightarrow> re" where
  "version_in_pattern v = seqs (map (\<lambda>c. if c = CHR ''.'' then Dot else Lit c) v)"

text \<open>\<^verbatim>\<open>^v%s\s\([A-Z][a-z]+\s[0-9]+[a-z]+\s[0-9]+\)$\<close> with \<^verbatim>\<open>re.M\<close>.\<close>

definition ver_re :: "loose_version \<Rightarrow> pattern" where
  "ver_re easybuild_version =
     (True,
      seqs [Bol, Lit CHR ''v'', version_in_pattern (vstring easybuild_version),
            Set [Ws], Lit CHR ''('',
            Set [Rng CHR ''A'' CHR ''Z''], Plus (Set [Rng CHR ''a'' CHR ''z'']),
            Set [Ws], Plus (Set [Rng CHR ''0'' CHR ''9'']), Plus (Set [Rng CHR ''a'' CHR ''z'']),
            Set [Ws], Plus (Set [Rng CHR ''0'' CHR ''9'']),
            Lit CHR '')'', Eol])"

definition check_release_notes :: "string + string \<Rightarrow> loose_version \<Rightarrow> bool run" where
  "check_release_notes rd easybuild_version =
     (let fn = ''RELEASE_NOTES'' in
      case rd of
        Inl err \<Rightarrow> error (''Failed to read '' @ fn @ '': '' @ err)
      | Inr releasenotes \<Rightarrow>
          if re_search (ver_re easybuild_version) releasenotes \<noteq> None
          then then_run (print (''Found entry in '' @ fn @ '' for version ''
                                @ vstring easybuild_version @ ''.'')) (\<lambda>_. ret True)
          else then_run (warning (''Could not find an entry for version ''
                                  @ vstring easybuild_version @ '' in '' @ fn @ ''.''))
                 (\<lambda>_. ret False))"

subsection \<open>\<^verbatim>\<open>check_license_headers\<close>\<close>

text \<open>
  The part of the file system under the home directory. An entry of a directory is a
  file, with its name and the result of reading it, or a directory, with its name and
  the result of listing it; a failed read or listing carries the message of the
  \<^verbatim>\<open>IOError\<close> or \<^verbatim>\<open>OSError\<close>. The order of a listing is the order in which
  \<^verbatim>\<open>os.listdir\<close> returns the names.
\<close>

datatype entry = File string string | FileErr string string | Dir string listing
  and listing = Listing "entry list" | ListErr string

text \<open>
  \<open>check_license_headers\<close> is the function, \<open>for_entries\<close> its loop over the
  listing, with the value of the variable \<^verbatim>\<open>ok\<close> at the start of the remaining
  iterations. The statement \<^verbatim>\<open>ok - False\<close> evaluates a difference and drops it, so
  the iteration for a file leaves \<^verbatim>\<open>ok\<close> as it is; the iteration for a directory
  assigns the result of the recursive call to \<^verbatim>\<open>ok\<close>. An \<^verbatim>\<open>error\<close> in a recursive
  call leaves the process through \<^verbatim>\<open>SystemExit\<close>, which no handler here catches.
\<close>

fun check_license_headers :: "string \<Rightarrow> listing \<Rightarrow> pattern \<Rightarrow> pattern \<Rightarrow> pattern \<Rightarrow> bool run"
  and for_entries :: "string \<Rightarrow> entry list \<Rightarrow> bool \<Rightarrow> pattern \<Rightarrow> pattern \<Rightarrow> pattern \<Rightarrow> bool run"
where
  "check_license_headers home (ListErr err) license_header_re filename_re dirname_re =
     error (''Failed to check for license header in all code files: '' @ err)"
| "check_license_headers home (Listing ds) license_header_re filename_re dirname_re =
     for_entries home ds True license_header_re filename_re dirname_re"
| "for_entries home [] ok license_header_re filename_re dirname_re = ret ok"
| "for_entries home (Dir d sub # ds) ok license_header_re filename_re dirname_re =
     (let fullfn = path_join home d; basefn = d in
      if re_match dirname_re basefn \<noteq> None
      then then_run (check_license_headers fullfn sub license_header_re filename_re dirname_re)
             (\<lambda>ok'. for_entries home ds ok' license_header_re filename_re dirname_re)
      else for_entries home ds ok license_header_re filename_re dirname_re)"
| "for_entries home (File d txt # ds) ok license_header_re filename_re dirname_re =
     (let fullfn = path_join home d; basefn = d in
      if re_match filename_re basefn \<noteq> None
      then if re_search license_header_re txt = None
           then then_run (warning (''Could not find license header in '' @ fullfn))
                  (\<lambda>_. for_entries home ds ok license_header_re filename_re dirname_re)
           else for_entries home ds ok license_header_re filename_re dirname_re
      else for_entries home ds ok license_header_re filename_re dirname_re)"
| "for_entries home (FileErr d err # ds) ok license_header_re filename_re dirname_re =
     (let fullfn = path_join home d; basefn = d in
      if re_match filename_re basefn \<noteq> None
      then error (''Failed to check for license header in all code files: '' @ err)
      else for_entries home ds ok license_header_re filename_re dirname_re)"

text \<open>
  The three patterns of the main program:
  \<^verbatim>\<open>[#\n]*#\s+Copyright\s+\d*\<close> with \<^verbatim>\<open>re.M\<close> (the \<^verbatim>\<open>\n\<close> of the Python string
  literal is a newline character in the class),
  \<^verbatim>\<open>^((?!\.).)*\.(py|sh)$\<close> and \<^verbatim>\<open>^((?!\.).)*$\<close>.
\<close>

definition license_header_re :: pattern where
  "license_header_re =
     (True,
      seqs [Star (Set [Chr CHR ''#'', Chr CHR 0x0A]), Lit CHR ''#'', Plus (Set [Ws]),
            lits ''Copyright'', Plus (Set [Ws]), Star (Set [Dg])])"

definition filename_re :: pattern where
  "filename_re =
     (False,
      seqs [Bol, Star (Seq (NotAhead (Lit CHR ''.'')) Dot), Lit CHR ''.'',
            Alt (lits ''py'') (lits ''sh''), Eol])"

definition dirname_re :: pattern where
  "dirname_re = (False, seqs [Bol, Star (Seq (NotAhead (Lit CHR ''.'')) Dot), Eol])"

subsection \<open>\<^verbatim>\<open>check_clean_master_branch\<close>\<close>

text \<open>
  \<^verbatim>\<open>^# On branch master$\<close> and \<^verbatim>\<open>^nothing to commit \(working directory clean\)$\<close>,
  both with \<^verbatim>\<open>re.M\<close>.
\<close>

definition master_re :: pattern where
  "master_re = (True, seqs [Bol, lits ''# On branch master'', Eol])"

definition clean_re :: pattern where
  "clean_re = (True, seqs [Bol, lits ''nothing to commit (working directory clean)'', Eol])"

text \<open>
  The two tests, each with the value of \<^verbatim>\<open>ok\<close> before it; the result of
  \<^verbatim>\<open>git status\<close> is the message of the \<^verbatim>\<open>GitCommandError\<close> or the output.
\<close>

definition check_master :: "string \<Rightarrow> bool \<Rightarrow> bool run" where
  "check_master git_status ok =
     (if re_search master_re git_status = None
      then then_run
             (warning ''Make sure you're on the master branch when running this script.'')
             (\<lambda>_. ret False)
      else then_run (print ''On master branch, good.'') (\<lambda>_. ret ok))"

definition check_clean :: "string \<Rightarrow> bool \<Rightarrow> bool run" where
  "check_clean git_status ok =
     (if re_search clean_re git_status = None
      then then_run
             (warning (''There seems to be work present that's not committed yet, ''
                       @ ''please make sure the master branch is clear!''))
             (\<lambda>_. ret False)
      else then_run (print ''Current branch is clean, great work!'') (\<lambda>_. ret ok))"

definition check_clean_master_branch :: "string + string \<Rightarrow> bool run" where
  "check_clean_master_branch res =
     (case res of
        Inl err \<Rightarrow> error ''Failed to determine status of git repository.''
      | Inr git_status \<Rightarrow>
          then_run (check_master git_status True) (\<lambda>ok. check_clean git_status ok))"

subsection \<open>The main program\<close>

text \<open>
  What the script reads from its environment: the home directory it computes from its
  own path, the result of reading \<^verbatim>\<open>easybuild/__init__.py\<close>, of \<^verbatim>\<open>git tag -l\<close>, of
  reading \<^verbatim>\<open>RELEASE_NOTES\<close>, of listing the home directory, and of \<^verbatim>\<open>git status\<close>.
\<close>

record env =
  easybuild_home :: string
  init_file :: "string + string"
  git_tag_l :: "string + string"
  release_notes_file :: "string + string"
  home_listing :: listing
  git_status_out :: "string + string"

text \<open>The script up to its last statement: the list \<^verbatim>\<open>all_checks\<close>.\<close>

definition all_checks :: "env \<Rightarrow> bool list run" where
  "all_checks e =
     then_run (print (''Found EasyBuild home: '' @ easybuild_home e)) (\<lambda>_.
     then_run (get_easybuild_version (easybuild_home e) (init_file e)) (\<lambda>easybuild_version.
     then_run (get_last_git_version_tag (git_tag_l e)) (\<lambda>last_git_version_tag.
     then_run (check_version easybuild_version last_git_version_tag) (\<lambda>c1.
     then_run (check_release_notes (release_notes_file e)
                 (py_max easybuild_version last_git_version_tag)) (\<lambda>c2.
     then_run (print ''Checking for license header in all code files...'') (\<lambda>_.
     then_run (check_license_headers (easybuild_home e) (home_listing e)
                 license_header_re filename_re dirname_re) (\<lambda>c3.
     then_run (print ''Done!'') (\<lambda>_.
     then_run (check_clean_master_branch (git_status_out e)) (\<lambda>c4.
     ret ([] @ [c1] @ [c2] @ [c3] @ [c4]))))))))))"

text \<open>
  The last statement, \<^verbatim>\<open>if not all(all_checks): error(...)\<close>, and the exit status of
  the process: that of \<^verbatim>\<open>sys.exit\<close>, or 0 when the script runs to its end.
\<close>

definition final_check :: "bool list \<Rightarrow> unit run" where
  "final_check checks =
     (if \<not> list_all (\<lambda>c. c) checks
      then error ''One or multiple checks have failed, EasyBuild is not ready to be released!''
      else ret ())"

definition exit_status :: "'a run \<Rightarrow> nat" where
  "exit_status r = (case snd r of Inl code \<Rightarrow> code | Inr _ \<Rightarrow> 0)"

definition main :: "env \<Rightarrow> unit run" where
  "main e = then_run (all_checks e) final_check"

subsection \<open>Dotted numeric version strings\<close>

text \<open>
  The fields of a string between its dots, and the numbers of a dotted numeric string:
  its non-empty fields, read as decimal numbers.
\<close>

fun split_dots :: "string \<Rightarrow> string list" where
  "split_dots [] = [[]]"
| "split_dots (c # cs) =
     (if c = CHR ''.'' then [] # split_dots cs
      else (case split_dots cs of [] \<Rightarrow> [[c]] | r # rs \<Rightarrow> (c # r) # rs))"

definition numeric_components :: "string \<Rightarrow> nat list" where
  "numeric_components s = map int_of_digits (filter (\<lambda>f. f \<noteq> []) (split_dots s))"

definition dotted_numeric :: "string \<Rightarrow> bool" where
  "dotted_numeric s = list_all (\<lambda>c. is_digit c \<or> c = CHR ''.'') s"

text \<open>
  The comparison the specification describes: the shorter sequence of numbers is filled
  with zeros to the length of the longer one, then the two are compared.
\<close>

definition zero_pad :: "nat \<Rightarrow> nat list \<Rightarrow> nat list" where
  "zero_pad n xs = xs @ replicate (n - length xs) 0"

definition equal_after_zero_padding :: "nat list \<Rightarrow> nat list \<Rightarrow> bool" where
  "equal_after_zero_padding xs ys =
     (zero_pad (max (length xs) (length ys)) xs = zero_pad (max (length xs) (length ys)) ys)"

subsection \<open>An environment to run the script in\<close>

text \<open>
  The declared version is 1.5, the last version tag is \<^verbatim>\<open>v1.4\<close>, the release notes
  have an entry for 1.5, the only code file has its header, and the working tree is clean
  on the master branch.
\<close>

definition example_env :: env where
  "example_env =
     \<lparr> easybuild_home = ''/eb'',
       init_file = Inr ''VERSION = 1.5'',
       git_tag_l = Inr ''v1.3\<newline>v1.4'',
       release_notes_file = Inr ''v1.5 (Jan 1st 2024)'',
       home_listing = Listing [File ''a.py'' ''# Copyright 2012''],
       git_status_out = Inr ''# On branch master\<newline>nothing to commit (working directory clean)'' \<rparr>"

text \<open>A computation that leaves the process does so with status 1.\<close>

definition exits_one :: "'a run \<Rightarrow> bool" where
  "exits_one r = (case snd r of Inl c \<Rightarrow> c = 1 | Inr _ \<Rightarrow> True)"

section \<open>The order of versions\<close>

lemma cmp_str_refl: "cmp_str s s = 0"
  by (induction s) simp_all

lemma cmp_comp_refl: "cmp_comp x x = 0"
  by (cases x) (simp_all add: cmp_str_refl)

lemma cmp_list_refl: "cmp_list xs xs = 0"
  by (induction xs) (simp_all add: cmp_comp_refl)

lemma cmp_list_common_prefix: "cmp_list (xs @ ys) (xs @ zs) = cmp_list ys zs"
  by (induction xs) (simp_all add: cmp_comp_refl)

text \<open>
  Claim C9. The order of parsed versions compares the components as numbers and not the
  texts as strings: the version parsed from \<^verbatim>\<open>2.10\<close> is greater than the one parsed from
  \<^verbatim>\<open>2.9\<close>, their components being \<open>[2, 10]\<close> and \<open>[2, 9]\<close>, although the text
  \<^verbatim>\<open>2.10\<close> is the smaller string. In general, after a common prefix of components the
  smaller number decides, whatever follows.
\<close>

theorem loose_version_order_numeric:
  "lv_gt (LooseVersion ''2.10'') (LooseVersion ''2.9'')
   \<and> version (LooseVersion ''2.10'') = [Num 2, Num 10]
   \<and> version (LooseVersion ''2.9'') = [Num 2, Num 9]
   \<and> cmp_str ''2.10'' ''2.9'' = - 1
   \<and> cmp_list (xs @ Num m # ys) (xs @ Num (m + Suc k) # zs) = - 1"
proof -
  have a: "lv_gt (LooseVersion ''2.10'') (LooseVersion ''2.9'')" by code_simp
  have b: "version (LooseVersion ''2.10'') = [Num 2, Num 10]" by code_simp
  have c: "version (LooseVersion ''2.9'') = [Num 2, Num 9]" by code_simp
  have d: "cmp_str ''2.10'' ''2.9'' = - 1" by code_simp
  have e: "cmp_list (xs @ Num m # ys) (xs @ Num (m + Suc k) # zs) = - 1"
    by (simp add: cmp_list_common_prefix)
  from a b c d e show ?thesis by blast
qed

section \<open>The release notes\<close>

text \<open>
  Claim C10. The dots of the version are wildcards of the pattern: for the version
  \<^verbatim>\<open>2.3\<close>, release notes whose only line is \<^verbatim>\<open>v2x3 (March 14th 2024)\<close>, which has
  no entry for 2.3, make \<open>check_release_notes\<close> report the entry as found and return
  true.
\<close>

theorem check_release_notes_dot_is_wildcard:
  "check_release_notes (Inr ''v2x3 (March 14th 2024)'') (LooseVersion ''2.3'')
   = ([Stdout ''Found entry in RELEASE_NOTES for version 2.3.\<newline>''], Inr True)"
  by code_simp

section \<open>The license headers\<close>

text \<open>
  Claim C1 (the code departs from it). On the directory \<^verbatim>\<open>/eb\<close> with \<^verbatim>\<open>a.py\<close>
  (with a header), \<^verbatim>\<open>b.py\<close> (without), \<^verbatim>\<open>c.txt\<close>, \<^verbatim>\<open>.hidden.py\<close> and
  \<^verbatim>\<open>sub/.git/d.py\<close> (all three without), \<open>check_license_headers\<close> warns about
  \<^verbatim>\<open>b.py\<close> and about no other file, and yet returns true: the statement
  \<^verbatim>\<open>ok - False\<close> does not change \<^verbatim>\<open>ok\<close>.
\<close>

theorem check_license_headers_missing_header_true:
  "check_license_headers ''/eb''
     (Listing [File ''a.py'' ''# Copyright 2012 X\<newline>'', File ''b.py'' ''print 1\<newline>'',
               File ''c.txt'' ''text'', File ''.hidden.py'' ''x'',
               Dir ''sub'' (Listing [Dir ''.git'' (Listing [File ''d.py'' ''x''])])])
     license_header_re filename_re dirname_re
   = ([Stderr ''WARNING: Could not find license header in /eb/b.py\<newline>''], Inr True)"
  by code_simp

section \<open>The branch and the working tree\<close>

text \<open>
  Claim C8. \<open>check_clean_master_branch\<close> tests the branch and the cleanness of the
  working tree one after the other, whatever the first test gave; each test writes its
  own line, a warning when it fails; the result is true only when both tests succeed.
  For a status on the branch \<^verbatim>\<open>feature-x\<close> with a clean working tree the result is
  false, with the warning about the branch and the line of success about the cleanness.
\<close>

theorem check_clean_master_branch_independent:
  "check_clean_master_branch (Inr git_status) =
     ([if re_search master_re git_status = None
       then Stderr ''WARNING: Make sure you're on the master branch when running this script.\<newline>''
       else Stdout ''On master branch, good.\<newline>'',
       if re_search clean_re git_status = None
       then Stderr ''WARNING: There seems to be work present that's not committed yet, please make sure the master branch is clear!\<newline>''
       else Stdout ''Current branch is clean, great work!\<newline>''],
      Inr (re_search master_re git_status \<noteq> None \<and> re_search clean_re git_status \<noteq> None))
   \<and> check_clean_master_branch
        (Inr ''# On branch feature-x\<newline>nothing to commit (working directory clean)'') =
     ([Stderr ''WARNING: Make sure you're on the master branch when running this script.\<newline>'',
       Stdout ''Current branch is clean, great work!\<newline>''], Inr False)"
proof -
  have gen: "check_clean_master_branch (Inr git_status) =
     ([if re_search master_re git_status = None
       then Stderr ''WARNING: Make sure you're on the master branch when running this script.\<newline>''
       else Stdout ''On master branch, good.\<newline>'',
       if re_search clean_re git_status = None
       then Stderr ''WARNING: There seems to be work present that's not committed yet, please make sure the master branch is clear!\<newline>''
       else Stdout ''Current branch is clean, great work!\<newline>''],
      Inr (re_search master_re git_status \<noteq> None \<and> re_search clean_re git_status \<noteq> None))"
    by (simp add: check_clean_master_branch_def check_master_def check_clean_def
        then_run_def warning_def print_def ret_def)
  have ex: "check_clean_master_branch
        (Inr ''# On branch feature-x\<newline>nothing to commit (working directory clean)'') =
     ([Stderr ''WARNING: Make sure you're on the master branch when running this script.\<newline>'',
       Stdout ''Current branch is clean, great work!\<newline>''], Inr False)"
    by code_simp
  from gen ex show ?thesis by blast
qed

section \<open>The main program\<close>

lemma cmp_str_antisym: "cmp_str s t + cmp_str t s = 0"
  by (induction s t rule: cmp_str.induct) simp_all

lemma cmp_comp_antisym: "cmp_comp x y + cmp_comp y x = 0"
  by (cases x; cases y) (simp_all add: cmp_str_antisym)

lemma cmp_list_antisym: "cmp_list xs ys + cmp_list ys xs = 0"
proof (induction xs ys rule: cmp_list.induct)
  case (4 x xs y ys)
  then show ?case using cmp_comp_antisym [of x y] by auto
qed simp_all

lemma lv_cmp_antisym: "lv_cmp a b + lv_cmp b a = 0"
  by (simp add: lv_cmp_def cmp_list_antisym)

lemma lv_cmp_refl: "lv_cmp a a = 0"
  by (simp add: lv_cmp_def cmp_list_refl)

lemma then_run_Inr: "then_run (out, Inr x) f = (out @ fst (f x), snd (f x))"
  by (simp add: then_run_def split: prod.splits)

lemma then_run_Inl: "then_run (out, Inl c) f = (out, Inl c)"
  by (simp add: then_run_def)

lemma then_run_fst_prefix: "\<exists>post. fst (then_run r f) = fst r @ post"
  by (cases r; cases "snd r") (auto simp: then_run_def split: prod.splits)

lemma check_version_returns:
  "\<exists>out. check_version a b = (out, Inr (lv_eq a b))"
  by (simp add: check_version_def then_run_def print_def warning_def ret_def)

text \<open>
  Claim C5. Once the declared version \<open>ev\<close> and the version \<open>tv\<close> of the last tag are
  determined, the main program checks the release notes for \<open>py_max ev tv\<close>: this is
  one of the two versions, neither of them is greater than it, and what the release-notes
  check writes for it is part of what the program writes.
\<close>

theorem release_notes_checked_for_later_version:
  assumes ev: "get_easybuild_version (easybuild_home e) (init_file e) = (o1, Inr ev)"
    and tv: "get_last_git_version_tag (git_tag_l e) = (o2, Inr tv)"
  shows "(py_max ev tv = ev \<or> py_max ev tv = tv)
    \<and> 0 \<le> lv_cmp (py_max ev tv) ev \<and> 0 \<le> lv_cmp (py_max ev tv) tv
    \<and> (\<exists>pre post. fst (all_checks e) =
          pre @ fst (check_release_notes (release_notes_file e) (py_max ev tv)) @ post)"
proof -
  have a: "py_max ev tv = ev \<or> py_max ev tv = tv" by (simp add: py_max_def)
  have b: "0 \<le> lv_cmp (py_max ev tv) ev"
    by (simp add: py_max_def lv_gt_def lv_cmp_refl)
  have c: "0 \<le> lv_cmp (py_max ev tv) tv"
    using lv_cmp_antisym [of ev tv] by (simp add: py_max_def lv_gt_def lv_cmp_refl)
  obtain o3 where cv: "check_version ev tv = (o3, Inr (lv_eq ev tv))"
    using check_version_returns by blast
  let ?crn = "check_release_notes (release_notes_file e) (py_max ev tv)"
  have d: "\<exists>pre post. fst (all_checks e) = pre @ fst ?crn @ post"
  proof -
    have "\<exists>post. fst (all_checks e) =
       ([Stdout (''Found EasyBuild home: '' @ easybuild_home e @ ''\<newline>'')] @ o1 @ o2 @ o3)
       @ fst ?crn @ post"
      unfolding all_checks_def
      by (simp add: print_def ev tv cv then_run_Inr then_run_fst_prefix)
    then show ?thesis by blast
  qed
  from a b c d show ?thesis by blast
qed

theorem release_notes_checked_for_later_version_witness:
  "get_easybuild_version (easybuild_home example_env) (init_file example_env)
     = ([], Inr (LooseVersion ''1.5''))
   \<and> get_last_git_version_tag (git_tag_l example_env) = ([], Inr (LooseVersion ''1.4''))
   \<and> py_max (LooseVersion ''1.5'') (LooseVersion ''1.4'') = LooseVersion ''1.5''
   \<and> 0 \<le> lv_cmp (py_max (LooseVersion ''1.5'') (LooseVersion ''1.4'')) (LooseVersion ''1.4'')
   \<and> (\<exists>pre post. fst (all_checks example_env) =
          pre @ fst (check_release_notes (release_notes_file example_env)
                       (py_max (LooseVersion ''1.5'') (LooseVersion ''1.4''))) @ post)"
proof -
  have h1: "get_easybuild_version (easybuild_home example_env) (init_file example_env)
     = ([], Inr (LooseVersion ''1.5''))" by code_simp
  have h2: "get_last_git_version_tag (git_tag_l example_env) = ([], Inr (LooseVersion ''1.4''))"
    by code_simp
  have h3: "py_max (LooseVersion ''1.5'') (LooseVersion ''1.4'') = LooseVersion ''1.5''"
    by code_simp
  from release_notes_checked_for_later_version [OF h1 h2] h1 h2 h3 show ?thesis by simp
qed

lemma then_run_Inr_iff:
  "then_run r f = (out, Inr y) \<longleftrightarrow>
     (\<exists>o1 x o2. r = (o1, Inr x) \<and> f x = (o2, Inr y) \<and> out = o1 @ o2)"
  by (cases r; cases "snd r") (auto simp: then_run_def split: prod.splits)

lemma all_checks_length: "all_checks e = (out, Inr checks) \<Longrightarrow> length checks = 4"
  by (auto simp: all_checks_def then_run_Inr_iff ret_def)

lemma exits_one_then_run:
  assumes "exits_one r" and "\<And>x. exits_one (f x)"
  shows "exits_one (then_run r f)"
proof (cases r)
  case (Pair out res)
  show ?thesis
  proof (cases res)
    case (Inl c)
    with Pair assms(1) show ?thesis by (simp add: exits_one_def then_run_def)
  next
    case (Inr x)
    with Pair assms(2) [of x] show ?thesis
      by (cases "f x") (simp add: exits_one_def then_run_def)
  qed
qed

lemma exits_one_basic [simp]:
  "exits_one (ret x)" "exits_one (print s)" "exits_one (warning s)" "exits_one (error s)"
  by (simp_all add: exits_one_def ret_def print_def warning_def error_def)

lemma exits_one_get_easybuild_version: "exits_one (get_easybuild_version h rd)"
  by (auto simp: get_easybuild_version_def Let_def split: sum.splits option.splits)

lemma exits_one_get_last_git_version_tag: "exits_one (get_last_git_version_tag res)"
  by (auto simp: get_last_git_version_tag_def Let_def split: sum.splits)

lemma exits_one_check_version: "exits_one (check_version a b)"
  by (auto simp: check_version_def intro!: exits_one_then_run)

lemma exits_one_check_release_notes: "exits_one (check_release_notes rd v)"
  by (auto simp: check_release_notes_def Let_def intro!: exits_one_then_run split: sum.splits)

lemma exits_one_check_license_headers:
  "exits_one (check_license_headers home l lic fre dre)"
  "exits_one (for_entries home ds ok lic fre dre)"
  by (induction home l lic fre dre and home ds ok lic fre dre
      rule: check_license_headers_for_entries.induct)
    (auto simp: Let_def intro!: exits_one_then_run)

lemma exits_one_check_clean_master_branch: "exits_one (check_clean_master_branch res)"
  by (auto simp: check_clean_master_branch_def check_master_def check_clean_def
      intro!: exits_one_then_run split: sum.splits)

lemma exits_one_all_checks: "exits_one (all_checks e)"
  unfolding all_checks_def
  by (intro exits_one_then_run exits_one_basic exits_one_get_easybuild_version
      exits_one_get_last_git_version_tag exits_one_check_version
      exits_one_check_release_notes exits_one_check_license_headers
      exits_one_check_clean_master_branch)

text \<open>
  Claim C7. The process ends with status 0 if and only if the script reaches its last
  statement with four checks that are all true. Whenever it reaches the last statement,
  there are four checks, and if one of them is false the script writes, after all the
  other output, the line on the error stream that EasyBuild is not ready to be released,
  and ends with status 1.
\<close>

theorem exit_status_zero_iff_all_checks:
  "(exit_status (main e) = 0 \<longleftrightarrow> (\<exists>out. all_checks e = (out, Inr [True, True, True, True])))
   \<and> (\<forall>out checks. all_checks e = (out, Inr checks) \<longrightarrow>
        length checks = 4 \<and>
        (\<not> list_all (\<lambda>c. c) checks \<longrightarrow>
           main e = (out @ [Stderr ''ERROR: One or multiple checks have failed, EasyBuild is not ready to be released!\<newline>''], Inl 1)
           \<and> exit_status (main e) = 1))"
proof -
  obtain out r where ac: "all_checks e = (out, r)" by (cases "all_checks e")
  have a: "exit_status (main e) = 0 \<longleftrightarrow> (\<exists>out. all_checks e = (out, Inr [True, True, True, True]))"
  proof (cases r)
    case (Inl c)
    with ac exits_one_all_checks [of e] have "c = 1" by (simp add: exits_one_def)
    with ac Inl show ?thesis by (simp add: main_def then_run_def exit_status_def)
  next
    case (Inr cs)
    with ac have len: "length cs = 4" using all_checks_length by blast
    then obtain c1 c2 c3 c4 where cs: "cs = [c1, c2, c3, c4]"
      by (auto simp: length_Suc_conv numeral_eq_Suc)
    with ac Inr show ?thesis
      by (auto simp: main_def then_run_def exit_status_def final_check_def error_def ret_def)
  qed
  have b: "\<forall>out checks. all_checks e = (out, Inr checks) \<longrightarrow>
        length checks = 4 \<and>
        (\<not> list_all (\<lambda>c. c) checks \<longrightarrow>
           main e = (out @ [Stderr ''ERROR: One or multiple checks have failed, EasyBuild is not ready to be released!\<newline>''], Inl 1)
           \<and> exit_status (main e) = 1)"
    using all_checks_length
    by (auto simp: main_def then_run_def exit_status_def final_check_def error_def)
  from a b show ?thesis by blast
qed

theorem exit_status_zero_iff_all_checks_witness:
  "snd (all_checks example_env) = Inr [False, True, True, True]
   \<and> main example_env =
       (fst (all_checks example_env) @ [Stderr ''ERROR: One or multiple checks have failed, EasyBuild is not ready to be released!\<newline>''], Inl 1)
   \<and> exit_status (main example_env) = 1"
proof -
  have s: "snd (all_checks example_env) = Inr [False, True, True, True]" by code_simp
  then have h: "all_checks example_env = (fst (all_checks example_env), Inr [False, True, True, True])"
    by (simp add: prod_eq_iff)
  from exit_status_zero_iff_all_checks [of example_env] h s show ?thesis by (simp add: exit_status_def)
qed


section \<open>Equality of versions\<close>

lemma split_dots_nonempty: "split_dots s \<noteq> []"
  by (induction s) (auto split: list.splits)

lemma split_dots_Cons:
  "c \<noteq> CHR ''.'' \<Longrightarrow> split_dots (c # cs) = (c # hd (split_dots cs)) # tl (split_dots cs)"
  using split_dots_nonempty [of cs] by (auto split: list.splits)

lemma dot_not_digit: "\<not> is_digit CHR ''.''"
  by (simp add: is_digit_def)

lemma kind_digit: "is_digit c \<Longrightarrow> kind c = 0"
  by (simp add: kind_def)

lemma kind_dot: "kind CHR ''.'' = 2"
  by (simp add: kind_def is_digit_def is_lower_def)

lemma is_digit_not_dot: "is_digit c \<Longrightarrow> c \<noteq> CHR ''.''"
  using dot_not_digit by auto

lemma pieces_digit_digit:
  "is_digit c \<Longrightarrow> is_digit d \<Longrightarrow>
   pieces (c # d # ds) = (case pieces (d # ds) of [] \<Rightarrow> [[c]] | r # rs \<Rightarrow> (c # r) # rs)"
  using is_digit_not_dot [of c] by (simp add: kind_digit)

lemma pieces_digit_dot: "is_digit c \<Longrightarrow> pieces (c # CHR ''.'' # ds) = [c] # pieces ds"
  using is_digit_not_dot [of c] by (simp add: kind_digit kind_dot)

lemma pieces_digit_end: "is_digit c \<Longrightarrow> pieces [c] = [[c]]"
  using is_digit_not_dot [of c] by simp

lemma pieces_dotted_numeric:
  "dotted_numeric s \<Longrightarrow> pieces s = filter (\<lambda>f. f \<noteq> []) (split_dots s)"
proof (induction s)
  case Nil
  then show ?case by simp
next
  case (Cons c cs)
  then have IH: "pieces cs = filter (\<lambda>f. f \<noteq> []) (split_dots cs)"
    and c: "is_digit c \<or> c = CHR ''.''" and cs: "dotted_numeric cs"
    by (simp_all add: dotted_numeric_def)
  show ?case
  proof (cases "c = CHR ''.''")
    case True
    with IH show ?thesis by simp
  next
    case False
    with c have dc: "is_digit c" by simp
    have sc: "split_dots (c # cs) = (c # hd (split_dots cs)) # tl (split_dots cs)"
      using False by (rule split_dots_Cons)
    show ?thesis
    proof (cases cs)
      case Nil
      with dc show ?thesis by (simp add: pieces_digit_end sc)
    next
      case (Cons d ds)
      with cs have d: "is_digit d \<or> d = CHR ''.''" by (simp add: dotted_numeric_def)
      show ?thesis
      proof (cases "d = CHR ''.''")
        case True
        have "pieces (c # cs) = [c] # pieces ds"
          using dc Cons True by (simp only: pieces_digit_dot)
        moreover have "pieces cs = pieces ds" using Cons True by simp
        moreover have "split_dots cs = [] # split_dots ds" using Cons True by simp
        ultimately show ?thesis using IH sc by simp
      next
        case dd: False
        with d have dg: "is_digit d" by simp
        have sd: "split_dots cs = (d # hd (split_dots ds)) # tl (split_dots ds)"
          unfolding Cons using dd by (rule split_dots_Cons)
        have "pieces (c # cs) = (case pieces cs of [] \<Rightarrow> [[c]] | r # rs \<Rightarrow> (c # r) # rs)"
          unfolding Cons using dc dg by (rule pieces_digit_digit)
        then show ?thesis using IH sc sd by simp
      qed
    qed
  qed
qed

lemma split_dots_chars:
  "f \<in> set (split_dots s) \<Longrightarrow> x \<in> set f \<Longrightarrow> x \<in> set s \<and> x \<noteq> CHR ''.''"
proof (induction s arbitrary: f)
  case Nil
  then show ?case by simp
next
  case (Cons c cs)
  show ?case
  proof (cases "c = CHR ''.''")
    case True
    with Cons show ?thesis by auto
  next
    case False
    have sc: "split_dots (c # cs) = (c # hd (split_dots cs)) # tl (split_dots cs)"
      using False by (rule split_dots_Cons)
    with Cons.prems(1) have "f = c # hd (split_dots cs) \<or> f \<in> set (tl (split_dots cs))"
      by auto
    then show ?thesis
    proof
      assume "f = c # hd (split_dots cs)"
      with Cons.prems(2) have "x = c \<or> x \<in> set (hd (split_dots cs))" by auto
      with False Cons.IH [of "hd (split_dots cs)"] split_dots_nonempty [of cs]
      show ?thesis by auto
    next
      assume "f \<in> set (tl (split_dots cs))"
      then have "f \<in> set (split_dots cs)"
        using split_dots_nonempty [of cs] by (auto dest: list.set_sel(2))
      with Cons.IH Cons.prems(2) show ?thesis by auto
    qed
  qed
qed

lemma version_dotted_numeric:
  assumes "dotted_numeric s"
  shows "version (LooseVersion s) = map Num (numeric_components s)"
proof -
  have "to_comp f = Num (int_of_digits f)" if "f \<in> set (split_dots s)" for f
  proof -
    have "is_digit x" if "x \<in> set f" for x
      using split_dots_chars [OF \<open>f \<in> set (split_dots s)\<close> that] assms
      by (auto simp: dotted_numeric_def list_all_iff)
    then show ?thesis by (simp add: to_comp_def list_all_iff)
  qed
  then show ?thesis
    by (simp add: LooseVersion_def numeric_components_def pieces_dotted_numeric [OF assms])
qed

lemma cmp_list_Num_eq: "cmp_list (map Num ms) (map Num ns) = 0 \<longleftrightarrow> ms = ns"
proof (induction ms arbitrary: ns)
  case Nil
  then show ?case by (cases ns) simp_all
next
  case (Cons m ms)
  then show ?case by (cases ns) auto
qed

text \<open>
  Claim C3 (corrected). For dotted numeric strings \<open>a\<close> and \<open>b\<close>, the components of
  the parsed versions are the numbers of the strings, and the versions compare equal if
  and only if the two sequences of numbers are the same, in length and at every position:
  \<^verbatim>\<open>LooseVersion\<close> compares the lists of components and fills nothing in.
\<close>

theorem loose_version_eq_iff_same_components:
  assumes "dotted_numeric a" and "dotted_numeric b"
  shows "version (LooseVersion a) = map Num (numeric_components a)
    \<and> version (LooseVersion b) = map Num (numeric_components b)
    \<and> (lv_eq (LooseVersion a) (LooseVersion b) \<longleftrightarrow> numeric_components a = numeric_components b)"
  using assms by (simp add: version_dotted_numeric lv_eq_def lv_cmp_def cmp_list_Num_eq)

theorem loose_version_eq_iff_same_components_witness:
  "dotted_numeric ''1.0'' \<and> dotted_numeric ''1.0.0''
   \<and> version (LooseVersion ''1.0'') = map Num (numeric_components ''1.0'')
   \<and> version (LooseVersion ''1.0.0'') = map Num (numeric_components ''1.0.0'')
   \<and> (lv_eq (LooseVersion ''1.0'') (LooseVersion ''1.0.0'')
        \<longleftrightarrow> numeric_components ''1.0'' = numeric_components ''1.0.0'')
   \<and> numeric_components ''1.0'' = [1, 0] \<and> numeric_components ''1.0.0'' = [1, 0, 0]"
proof -
  have h1: "dotted_numeric ''1.0''" by code_simp
  have h2: "dotted_numeric ''1.0.0''" by code_simp
  have h3: "numeric_components ''1.0'' = [1, 0]" by code_simp
  have h4: "numeric_components ''1.0.0'' = [1, 0, 0]" by code_simp
  from loose_version_eq_iff_same_components [OF h1 h2] h1 h2 h3 h4 show ?thesis by simp
qed

text \<open>
  The versions parsed from \<^verbatim>\<open>1.0\<close> and \<^verbatim>\<open>1.0.0\<close> are not equal, although their
  numbers are equal after filling the shorter sequence with zeros.
\<close>

theorem loose_version_zero_padding_counterexample:
  "\<not> (lv_eq (LooseVersion ''1.0'') (LooseVersion ''1.0.0'')
        \<longleftrightarrow> equal_after_zero_padding (numeric_components ''1.0'') (numeric_components ''1.0.0''))"
  by code_simp


end
